theory Spec2Isabelle
  imports Complex_Main
begin

section \<open>The physics capability: bodies, shapes, joints and the space\<close>

text \<open>
  The components of \<^verbatim>\<open>src/components/game_components.py\<close> are built on pymunk.
  Python numbers are idealised as reals. Python objects have identity and are mutated in
  place, so bodies, shapes and joints live in a store addressed by references; the space
  keeps the set of references that are currently registered in it.
\<close>

type_synonym vec = "real \<times> real"
type_synonym ref = nat
type_synonym color = "nat list"
type_synonym callback = nat

datatype error = AssertionError | BadReference | Raised nat

datatype body_type = DYNAMIC | KINEMATIC | STATIC

text \<open>
  The moment of inertia is computed by pymunk; the model records which pymunk function
  was called with which arguments, not the number it returns.
\<close>

datatype moment =
    Moment real
  | MomentForCircle real real real
  | MomentForSegment real vec vec real
  | MomentForBox real vec

record Body =
  mass :: real
  moment :: moment
  body_type :: body_type
  position :: vec
  angle :: real
  angular_velocity :: real

datatype geometry =
    Circle real
  | Segment vec vec real
  | Box vec

record Shape =
  body :: ref
  geometry :: geometry
  elasticity :: real
  friction :: real
  collision_type :: nat
  sensor :: bool
  density :: real

datatype Constraint =
    PivotJoint ref ref vec
  | PinJoint ref ref vec vec
  | RotaryLimitJoint ref ref real real

datatype obj = BodyObj Body | ShapeObj Shape | ConstraintObj Constraint

text \<open>\<^verbatim>\<open>pymunk.Body(mass, moment)\<close> and \<^verbatim>\<open>pymunk.Body(body_type=...)\<close>: a new body
  sits at the origin, unrotated and at rest.\<close>

definition new_Body :: "real \<Rightarrow> moment \<Rightarrow> body_type \<Rightarrow> Body" where
  "new_Body m i t =
     \<lparr>mass = m, moment = i, body_type = t, position = (0, 0), angle = 0,
      angular_velocity = 0\<rparr>"

text \<open>A new shape: no elasticity, no friction, collision type 0, not a sensor.\<close>

definition new_Shape :: "ref \<Rightarrow> geometry \<Rightarrow> Shape" where
  "new_Shape b g =
     \<lparr>body = b, geometry = g, elasticity = 0, friction = 0, collision_type = 0,
      sensor = False, density = 0\<rparr>"

text \<open>
  The trigger is declared here because the space stores its bound method
  \<^verbatim>\<open>self._handle_collision\<close> as the begin handler of a pair of collision types.
\<close>

record Trigger =
  position :: vec
  width :: real
  height :: real
  on_trigger :: "callback option"
  body :: ref
  shape :: ref

datatype begin_handler = HandleCollisionOf Trigger

record world =
  heap :: "ref \<rightharpoonup> obj"
  next_ref :: ref
  static_body :: ref
  registered :: "ref set"
  handlers :: "(nat \<times> nat) \<rightharpoonup> begin_handler"

type_synonym 'a outcome = "(error + 'a) \<times> world"

text \<open>A fresh space: only its own static body exists, nothing is registered.\<close>

definition empty_space :: world where
  "empty_space =
     \<lparr>heap = [0 \<mapsto> BodyObj (new_Body 0 (Moment 0) STATIC)], next_ref = 1,
      static_body = 0, registered = {}, handlers = Map.empty\<rparr>"

text \<open>Creating a Python object: it gets the next unused reference.\<close>

definition alloc :: "obj \<Rightarrow> world \<Rightarrow> ref \<times> world" where
  "alloc v w =
     (next_ref w, w\<lparr>heap := (heap w)(next_ref w \<mapsto> v), next_ref := Suc (next_ref w)\<rparr>)"

definition get_body :: "world \<Rightarrow> ref \<Rightarrow> Body option" where
  "get_body w r = (case heap w r of Some (BodyObj b) \<Rightarrow> Some b | _ \<Rightarrow> None)"

definition get_shape :: "world \<Rightarrow> ref \<Rightarrow> Shape option" where
  "get_shape w r = (case heap w r of Some (ShapeObj s) \<Rightarrow> Some s | _ \<Rightarrow> None)"

definition get_constraint :: "world \<Rightarrow> ref \<Rightarrow> Constraint option" where
  "get_constraint w r = (case heap w r of Some (ConstraintObj c) \<Rightarrow> Some c | _ \<Rightarrow> None)"

text \<open>
  \<^verbatim>\<open>space.add(*objs)\<close>: pymunk asserts that an object is not yet in the space and
  then registers it. \<^verbatim>\<open>space.remove(*objs)\<close>: pymunk asserts that an object is in the
  space ("not in space, already removed?") and then deregisters it. The objects are
  handled one after the other, so a failing assertion leaves the earlier ones done.
  pymunk postpones an add or a remove that is called while the engine is stepping (from
  a contact handler) to the end of that step; here it takes effect at once, which is the
  state the space is in when the step has ended.
\<close>

definition space_add1 :: "ref \<Rightarrow> world \<Rightarrow> unit outcome" where
  "space_add1 r w =
     (if r \<in> registered w then (Inl AssertionError, w)
      else (Inr (), w\<lparr>registered := insert r (registered w)\<rparr>))"

fun space_add :: "ref list \<Rightarrow> world \<Rightarrow> unit outcome" where
  "space_add [] w = (Inr (), w)"
| "space_add (r # rs) w =
     (case space_add1 r w of
        (Inl e, w') \<Rightarrow> (Inl e, w')
      | (Inr _, w') \<Rightarrow> space_add rs w')"

definition space_remove1 :: "ref \<Rightarrow> world \<Rightarrow> unit outcome" where
  "space_remove1 r w =
     (if r \<in> registered w then (Inr (), w\<lparr>registered := registered w - {r}\<rparr>)
      else (Inl AssertionError, w))"

fun space_remove :: "ref list \<Rightarrow> world \<Rightarrow> unit outcome" where
  "space_remove [] w = (Inr (), w)"
| "space_remove (r # rs) w =
     (case space_remove1 r w of
        (Inl e, w') \<Rightarrow> (Inl e, w')
      | (Inr _, w') \<Rightarrow> space_remove rs w')"

text \<open>\<^verbatim>\<open>space.on_collision(a, b, begin=h)\<close> sets the begin handler of the pair.\<close>

definition space_on_collision :: "nat \<Rightarrow> nat \<Rightarrow> begin_handler \<Rightarrow> world \<Rightarrow> world" where
  "space_on_collision a b h w = w\<lparr>handlers := (handlers w)((a, b) \<mapsto> h)\<rparr>"

text \<open>Every registered reference has been allocated: new objects are not in the space.\<close>

definition wf_world :: "world \<Rightarrow> bool" where
  "wf_world w =
     ((\<forall>r \<in> registered w. r < next_ref w) \<and> (\<forall>r. next_ref w \<le> r \<longrightarrow> heap w r = None))"

text \<open>\<^verbatim>\<open>body.position = p\<close> on an existing body.\<close>

definition set_position :: "ref \<Rightarrow> vec \<Rightarrow> world \<Rightarrow> world" where
  "set_position r p w =
     (case get_body w r of
        Some b \<Rightarrow> w\<lparr>heap := (heap w)(r \<mapsto> BodyObj (b\<lparr>Body.position := p\<rparr>))\<rparr>
      | None \<Rightarrow> w)"

text \<open>The body's angle after the engine, or an assignment, has changed it.\<close>

definition set_angle :: "ref \<Rightarrow> real \<Rightarrow> world \<Rightarrow> world" where
  "set_angle r a w =
     (case get_body w r of
        Some b \<Rightarrow> w\<lparr>heap := (heap w)(r \<mapsto> BodyObj (b\<lparr>Body.angle := a\<rparr>))\<rparr>
      | None \<Rightarrow> w)"

text \<open>\<^verbatim>\<open>body.local_to_world(v)\<close>: rotate by the body's angle, then translate.\<close>

definition local_to_world :: "Body \<Rightarrow> vec \<Rightarrow> vec" where
  "local_to_world b v =
     (fst (Body.position b) + (fst v * cos (Body.angle b) - snd v * sin (Body.angle b)),
      snd (Body.position b) + (fst v * sin (Body.angle b) + snd v * cos (Body.angle b)))"

section \<open>Python's math and random, pygame's surfaces\<close>

definition math_degrees :: "real \<Rightarrow> real" where
  "math_degrees r = r * 180 / pi"


text \<open>\<^verbatim>\<open>int(x)\<close> on a float truncates towards zero.\<close>

definition py_int :: "real \<Rightarrow> int" where
  "py_int x = (if x < 0 then \<lceil>x\<rceil> else \<lfloor>x\<rfloor>)"

text \<open>\<^verbatim>\<open>random.uniform(a, b)\<close> is \<^verbatim>\<open>a + (b - a) * random()\<close>; \<open>u\<close> is the value
  that \<^verbatim>\<open>random()\<close> returned.\<close>

definition uniform :: "real \<Rightarrow> real \<Rightarrow> real \<Rightarrow> real" where
  "uniform a b u = a + (b - a) * u"

text \<open>
  A pygame surface is recorded as its size and the drawing calls made on it, in order.
  \<open>Rotate img d\<close> is the surface \<^verbatim>\<open>pygame.transform.rotate(img, d)\<close> returns.
  What is drawn on the screen is the list of calls: \<open>Blit img c\<close> is
  \<^verbatim>\<open>surface.blit(img, img.get_rect(center=c))\<close>, \<open>DrawLine\<close> is
  \<^verbatim>\<open>pygame.draw.line(screen, color, a, b, width)\<close>.
\<close>

datatype paint =
    PaintCircle color vec real real
  | PaintLine color vec vec real

datatype surface = Surface vec "paint list" | Rotate surface real

datatype draw_cmd =
    Blit surface "int \<times> int"
  | DrawLine color vec vec real

section \<open>Ball\<close>

definition BALL_COLOR :: color where "BALL_COLOR = [220, 40, 40]"
definition BALL_EDGE_COLOR :: color where "BALL_EDGE_COLOR = [120, 0, 0]"
definition BALL_HIGHLIGHT_COLOR :: color where "BALL_HIGHLIGHT_COLOR = [255, 255, 255, 60]"

record Ball =
  body :: ref
  shape :: ref
  radius :: real
  image' :: surface

text \<open>The texture is drawn once, in the constructor, and kept in \<open>image'\<close>.\<close>

definition Ball_texture :: "real \<Rightarrow> surface" where
  "Ball_texture radius' =
     (let center = (radius', radius')
      in Surface (radius' * 2, radius' * 2)
           [PaintCircle BALL_COLOR center radius' 0,
            PaintCircle BALL_EDGE_COLOR center radius' 2,
            PaintCircle BALL_HIGHLIGHT_COLOR (radius' - 4, radius' - 4)
              (of_int \<lfloor>radius' / 3\<rfloor>) 0])"

definition Ball_init :: "world \<Rightarrow> real \<Rightarrow> real \<Rightarrow> real \<Rightarrow> Ball outcome" where
  "Ball_init space x y radius' =
     (let mass = 10;
          moment = MomentForCircle mass 0 radius';
          (body, w1) = alloc (BodyObj ((new_Body mass moment DYNAMIC)
                                 \<lparr>Body.position := (x, y)\<rparr>)) space;
          (shape, w2) = alloc (ShapeObj ((new_Shape body (Circle radius'))
                                 \<lparr>elasticity := 1.0, friction := 0.5, collision_type := 1\<rparr>)) w1
      in case space_add [body, shape] w2 of
           (Inl e, w3) \<Rightarrow> (Inl e, w3)
         | (Inr _, w3) \<Rightarrow>
             (Inr \<lparr>Ball.body = body, shape = shape, radius = radius',
                   image' = Ball_texture radius'\<rparr>, w3))"

definition Ball_draw :: "Ball \<Rightarrow> world \<Rightarrow> draw_cmd list \<Rightarrow> error + draw_cmd list" where
  "Ball_draw self w surface =
     (case get_body w (Ball.body self) of
        None \<Rightarrow> Inl BadReference
      | Some b \<Rightarrow>
          (let angle_degrees = math_degrees (Body.angle b);
               rotated_image = Rotate (Ball.image' self) (- angle_degrees)
           in Inr (surface @
                [Blit rotated_image
                   (py_int (fst (Body.position b)), py_int (snd (Body.position b)))])))"

section \<open>Catapult\<close>

record Catapult =
  pivot :: vec
  stick_length :: real
  stick_thickness :: real
  mass :: real
  base_w :: real
  base_h :: real
  moment :: moment
  arm_body :: ref
  arm_shape :: ref
  stopper_shape :: ref
  stopper_shape2 :: ref

text \<open>
  \<^verbatim>\<open>create_arm\<close> reads the fields \<^verbatim>\<open>__init__\<close> has set (pivot, stick length and thickness,
  mass, moment) and sets the arm fields.
\<close>

definition Catapult_create_arm ::
  "vec \<Rightarrow> real \<Rightarrow> real \<Rightarrow> real \<Rightarrow> moment \<Rightarrow> world \<Rightarrow> (ref \<times> ref \<times> ref \<times> ref) outcome" where
  "Catapult_create_arm pivot' stick_length' stick_thickness' mass' moment' space =
     (let (arm_body, w1) = alloc (BodyObj ((new_Body mass' moment' DYNAMIC)
                                     \<lparr>Body.position := pivot', angular_velocity := 46\<rparr>)) space;
          (arm_shape, w2) = alloc (ShapeObj
             ((new_Shape arm_body (Segment (0, 0) (- stick_length', 0) stick_thickness'))
                \<lparr>friction := 0.8\<rparr>)) w1;
          (stopper_shape, w3) = alloc (ShapeObj
             ((new_Shape arm_body
                 (Segment (- stick_length', 0) (- stick_length' - 15, - 25) stick_thickness'))
                \<lparr>elasticity := 0.2, friction := 0.5\<rparr>)) w2;
          (stopper_shape2, w4) = alloc (ShapeObj
             ((new_Shape arm_body
                 (Segment (- stick_length' + 20, 0) (- stick_length' + 35, - 25) stick_thickness'))
                \<lparr>elasticity := 0.2, friction := 0.5\<rparr>)) w3
      in case space_add [arm_body, arm_shape, stopper_shape, stopper_shape2] w4 of
           (Inl e, w5) \<Rightarrow> (Inl e, w5)
         | (Inr _, w5) \<Rightarrow>
             (let (joint, w6) = alloc (ConstraintObj
                                   (PivotJoint arm_body (static_body w5) pivot')) w5
              in case space_add [joint] w6 of
                   (Inl e, w7) \<Rightarrow> (Inl e, w7)
                 | (Inr _, w7) \<Rightarrow>
                     (Inr (arm_body, arm_shape, stopper_shape, stopper_shape2), w7)))"

definition Catapult_init :: "world \<Rightarrow> vec \<Rightarrow> real \<Rightarrow> real \<Rightarrow> Catapult outcome" where
  "Catapult_init space pivot' stick_length' stick_thickness' =
     (let mass' = 500; base_w = 80; base_h = 20;
          moment' = MomentForSegment mass' (0, 0) (- stick_length', 0) stick_thickness'
      in case Catapult_create_arm pivot' stick_length' stick_thickness' mass' moment' space of
           (Inl e, w) \<Rightarrow> (Inl e, w)
         | (Inr (ab, ash, st, st2), w) \<Rightarrow>
             (Inr \<lparr>pivot = pivot', stick_length = stick_length',
                   stick_thickness = stick_thickness', mass = mass', base_w = base_w,
                   base_h = base_h, moment = moment', arm_body = ab,
                   arm_shape = ash, stopper_shape = st,
                   stopper_shape2 = st2\<rparr>, w))"

section \<open>Crate\<close>

definition CRATE_SIZE_MULTIPLIER :: real where
  "CRATE_SIZE_MULTIPLIER = 10"

record Crate =
  mass :: real
  size' :: real
  body :: ref
  shape :: ref

definition Crate_init :: "world \<Rightarrow> vec \<Rightarrow> real \<Rightarrow> Crate outcome" where
  "Crate_init space pos m =
     (let size = m * CRATE_SIZE_MULTIPLIER;
          moment = MomentForBox m (size * 2, size * 2);
          (body, w1) = alloc (BodyObj ((new_Body m moment DYNAMIC)
                                 \<lparr>Body.position := pos\<rparr>)) space;
          (shape, w2) = alloc (ShapeObj ((new_Shape body (Box (size * 2, size * 2)))
                                 \<lparr>elasticity := 0.6, friction := 0.8\<rparr>)) w1
      in case space_add [body, shape] w2 of
           (Inl e, w3) \<Rightarrow> (Inl e, w3)
         | (Inr _, w3) \<Rightarrow>
             (Inr \<lparr>Crate.mass = m, size' = size, body = body, shape = shape\<rparr>, w3))"

text \<open>
  \<^verbatim>\<open>Poly.create_box(body, (w, h))\<close> builds a box of full width \<open>w\<close> and full height
  \<open>h\<close> centred on the body: its half-extents are \<open>w / 2\<close> and \<open>h / 2\<close>.
\<close>

fun box_side :: "geometry \<Rightarrow> vec option" where
  "box_side (Box (w, h)) = Some (w, h)"
| "box_side _ = None"

fun box_half_extent :: "geometry \<Rightarrow> vec option" where
  "box_half_extent (Box (w, h)) = Some (w / 2, h / 2)"
| "box_half_extent _ = None"

definition shape_geometry :: "world \<Rightarrow> ref \<Rightarrow> geometry option" where
  "shape_geometry w r = map_option Shape.geometry (get_shape w r)"

text \<open>The half-extents and the full sides of the box a shape is, if it is one.\<close>

definition shape_half_extent :: "world \<Rightarrow> ref \<Rightarrow> vec option" where
  "shape_half_extent w r =
     (case shape_geometry w r of None \<Rightarrow> None | Some g \<Rightarrow> box_half_extent g)"

definition shape_box_side :: "world \<Rightarrow> ref \<Rightarrow> vec option" where
  "shape_box_side w r =
     (case shape_geometry w r of None \<Rightarrow> None | Some g \<Rightarrow> box_side g)"

section \<open>Lever\<close>

definition BROWN :: color where "BROWN = [150, 100, 50]"
definition DARK_BROWN :: color where "DARK_BROWN = [100, 60, 20]"

definition LEVER_LEFT_RATIO :: real where "LEVER_LEFT_RATIO = 0.4"
definition LEVER_RIGHT_RATIO :: real where "LEVER_RIGHT_RATIO = 0.6"
definition LEVER_COLLISION_TYPE :: nat where "LEVER_COLLISION_TYPE = 2"

record Lever =
  length' :: real
  thickness :: real
  mass :: real
  pivot_point :: vec
  load :: Crate
  effort :: Crate
  body :: ref
  shape :: ref
  holder_shapes :: "ref list"
  holder_shape :: ref
  holder_shape2 :: ref
  holder_shape3 :: ref
  holder_shape4 :: ref

text \<open>
  The constructor reads \<^verbatim>\<open>load.body.position.x\<close>, \<^verbatim>\<open>effort.body.position.x\<close> and
  \<^verbatim>\<open>self.body.position.x\<close> from the store as it is at that moment, and stores numbers
  in the holder segments. \<open>BadReference\<close> stands for a \<open>load\<close> or \<open>effort\<close> that has no
  body object; Python has no such value of a Crate.
\<close>

definition Lever_init ::
  "world \<Rightarrow> vec \<Rightarrow> real \<Rightarrow> real \<Rightarrow> Crate \<Rightarrow> Crate \<Rightarrow> real \<Rightarrow> Lever outcome" where
  "Lever_init space pivot_point' len thickness' load' effort' mass' =
     (let left_length = len * LEVER_LEFT_RATIO;
          right_length = len * LEVER_RIGHT_RATIO;
          moment = MomentForSegment mass' (- left_length, 0) (right_length, 0) thickness';
          (body, w1) = alloc (BodyObj ((new_Body mass' moment DYNAMIC)
                                 \<lparr>Body.position := pivot_point'\<rparr>)) space;
          (shape, w2) = alloc (ShapeObj
             ((new_Shape body (Segment (- left_length, 0) (right_length, 0) thickness'))
                \<lparr>friction := 0.8, collision_type := LEVER_COLLISION_TYPE\<rparr>)) w1;
          (holder1, w3) = alloc (ShapeObj
             ((new_Shape body
                 (Segment (- len * LEVER_LEFT_RATIO + - 5, 5)
                          (- len * LEVER_LEFT_RATIO + - 5, - 20) thickness'))
                \<lparr>elasticity := 0.2, friction := 0.5\<rparr>)) w2
      in case (get_body w3 (Crate.body load'), get_body w3 (Crate.body effort'),
               get_body w3 body) of
           (Some lb, Some eb, Some sb) \<Rightarrow>
             (let load_x = fst (Body.position lb);
                  effort_x = fst (Body.position eb);
                  lever_x = fst (Body.position sb);
                  load_local_x = load_x - lever_x;
                  effort_local_x = effort_x - lever_x;
                  load_half_width = Crate.size' load';
                  effort_half_width = Crate.size' effort';
                  (holder2, w4) = alloc (ShapeObj
                     ((new_Shape body
                         (Segment (load_local_x + load_half_width + 5, 5)
                                  (load_local_x + load_half_width + 5, - 20) thickness'))
                        \<lparr>elasticity := 0.2, friction := 0.5\<rparr>)) w3;
                  (holder3, w5) = alloc (ShapeObj
                     ((new_Shape body
                         (Segment (effort_local_x - effort_half_width - 5, 5)
                                  (effort_local_x - effort_half_width - 5, - 20) thickness'))
                        \<lparr>elasticity := 0.2, friction := 0.5\<rparr>)) w4;
                  (holder4, w6) = alloc (ShapeObj
                     ((new_Shape body
                         (Segment (- len * LEVER_LEFT_RATIO + 355, 5)
                                  (- len * LEVER_LEFT_RATIO + 355, - 20) (thickness' - 5)))
                        \<lparr>elasticity := 0.2, friction := 0.5,
                         collision_type := LEVER_COLLISION_TYPE\<rparr>)) w5;
                  holder_shapes = [holder1, holder2, holder3, holder4]
              in case space_add [body, shape, holder1, holder2, holder3, holder4] w6 of
                   (Inl e, w7) \<Rightarrow> (Inl e, w7)
                 | (Inr _, w7) \<Rightarrow>
                     (let (pivot_joint, w8) = alloc (ConstraintObj
                             (PivotJoint body (static_body w7) pivot_point')) w7
                      in case space_add [pivot_joint] w8 of
                           (Inl e, w9) \<Rightarrow> (Inl e, w9)
                         | (Inr _, w9) \<Rightarrow>
                             (Inr \<lparr>length' = len, thickness = thickness', mass = mass',
                                   pivot_point = pivot_point', load = load',
                                   effort = effort', body = body, shape = shape,
                                   holder_shapes = holder_shapes,
                                   holder_shape = holder1, holder_shape2 = holder2,
                                   holder_shape3 = holder3, holder_shape4 = holder4\<rparr>, w9)))
         | _ \<Rightarrow> (Inl BadReference, w3))"

text \<open>The local endpoints \<open>a\<close> and \<open>b\<close> of a segment shape.\<close>

definition segment_ends :: "world \<Rightarrow> ref \<Rightarrow> (vec \<times> vec) option" where
  "segment_ends w r =
     (case shape_geometry w r of Some (Segment a b _) \<Rightarrow> Some (a, b) | _ \<Rightarrow> None)"

text \<open>The loop of \<^verbatim>\<open>Lever.draw\<close> over the beam and the holders: two strokes per shape.\<close>

fun Lever_draw_shapes ::
  "world \<Rightarrow> ref \<Rightarrow> real \<Rightarrow> ref list \<Rightarrow> draw_cmd list \<Rightarrow> error + draw_cmd list" where
  "Lever_draw_shapes w body' thickness' [] screen = Inr screen"
| "Lever_draw_shapes w body' thickness' (s # ss) screen =
     (case (get_body w body', segment_ends w s) of
        (Some bd, Some (a, b)) \<Rightarrow>
          Lever_draw_shapes w body' thickness' ss
            (screen @
               [DrawLine DARK_BROWN (local_to_world bd a) (local_to_world bd b) (thickness' + 5),
                DrawLine BROWN (local_to_world bd a) (local_to_world bd b) (thickness' + 3)])
      | _ \<Rightarrow> Inl BadReference)"

definition Lever_draw :: "Lever \<Rightarrow> world \<Rightarrow> draw_cmd list \<Rightarrow> error + draw_cmd list" where
  "Lever_draw self w screen =
     Lever_draw_shapes w (Lever.body self) (Lever.thickness self)
       ([Lever.shape self] @ Lever.holder_shapes self) screen"

section \<open>Projectile\<close>

record Projectile =
  self_x :: real
  self_y :: real
  radius :: real
  mass :: real
  on_ground :: bool
  body :: ref
  shape :: ref
  image' :: surface

text \<open>
  The rock texture is drawn once, in the constructor. \<open>rnd k\<close> is the value of the
  \<open>k\<close>-th call of \<^verbatim>\<open>random()\<close> the constructor makes: two for each of the twelve
  speckles, then two for each of the three crack lines.
\<close>

definition Projectile_speckle :: "(nat \<Rightarrow> real) \<Rightarrow> real \<Rightarrow> nat \<Rightarrow> paint" where
  "Projectile_speckle rnd radius' k =
     (let center = (radius', radius');
          angle = uniform 0 (2 * pi) (rnd (2 * k));
          dist = uniform 0 (radius' * 0.8) (rnd (2 * k + 1));
          dot_x = py_int (fst center + cos angle * dist);
          dot_y = py_int (snd center + sin angle * dist)
      in PaintCircle [70, 70, 70] (of_int dot_x, of_int dot_y) 1 0)"

definition Projectile_crack :: "(nat \<Rightarrow> real) \<Rightarrow> real \<Rightarrow> nat \<Rightarrow> paint" where
  "Projectile_crack rnd radius' k =
     (let center = (radius', radius');
          start_angle = uniform 0 (2 * pi) (rnd (24 + 2 * k));
          end_angle = start_angle + uniform 0.5 5.0 (rnd (24 + 2 * k + 1));
          start = (fst center + cos start_angle * (radius' * 0.4),
                   snd center + sin start_angle * (radius' * 0.4));
          end' = (fst center + cos end_angle * (radius' * 0.8),
                  snd center + sin end_angle * (radius' * 0.8))
      in PaintLine [30, 30, 30] start end' 2)"

definition Projectile_texture :: "(nat \<Rightarrow> real) \<Rightarrow> real \<Rightarrow> surface" where
  "Projectile_texture rnd radius' =
     (let center = (radius', radius')
      in Surface (radius' * 2, radius' * 2)
           ([PaintCircle [100, 100, 100] center radius' 0,
             PaintCircle [60, 60, 60] center radius' 2]
            @ map (Projectile_speckle rnd radius') [0..<12]
            @ map (Projectile_crack rnd radius') [0..<3]))"

definition Projectile_init ::
  "(nat \<Rightarrow> real) \<Rightarrow> world \<Rightarrow> vec \<Rightarrow> real \<Rightarrow> Projectile outcome" where
  "Projectile_init rnd space position' radius' =
     (let (x, y) = position';
          mass' = 100;
          (body, w1) = alloc (BodyObj ((new_Body mass' (MomentForCircle mass' 0 radius') DYNAMIC)
                                 \<lparr>Body.position := (x, y)\<rparr>)) space;
          (shape, w2) = alloc (ShapeObj ((new_Shape body (Circle radius'))
                                 \<lparr>elasticity := 0.4, friction := 0.8, density := 1\<rparr>)) w1
      in case space_add [body, shape] w2 of
           (Inl e, w3) \<Rightarrow> (Inl e, w3)
         | (Inr _, w3) \<Rightarrow>
             (Inr \<lparr>self_x = x, self_y = y, radius = radius', mass = mass',
                   on_ground = False, body = body, shape = shape,
                   image' = Projectile_texture rnd radius'\<rparr>, w3))"

definition Projectile_draw ::
  "Projectile \<Rightarrow> world \<Rightarrow> draw_cmd list \<Rightarrow> error + draw_cmd list" where
  "Projectile_draw self w surface =
     (case get_body w (Projectile.body self) of
        None \<Rightarrow> Inl BadReference
      | Some b \<Rightarrow>
          (let angle_degrees = math_degrees (Body.angle b);
               rotated_image = Rotate (Projectile.image' self) (- angle_degrees)
           in Inr (surface @
                [Blit rotated_image
                   (py_int (fst (Body.position b)), py_int (snd (Body.position b)))])))"

section \<open>Seesaw\<close>

record Seesaw =
  body :: ref
  shape :: ref
  pivot :: ref
  width :: real
  height :: real


section \<open>Trigger\<close>

definition Trigger_init ::
  "world \<Rightarrow> vec \<Rightarrow> real \<Rightarrow> real \<Rightarrow> callback option \<Rightarrow> Trigger outcome" where
  "Trigger_init space position' width' height' on_trigger' =
     (let center_x = fst position' + width' / 2;
          center_y = snd position' + height' / 2;
          (body, w1) = alloc (BodyObj ((new_Body 0 (Moment 0) STATIC)
                                 \<lparr>Body.position := (center_x, center_y)\<rparr>)) space;
          (shape, w2) = alloc (ShapeObj ((new_Shape body (Box (width', height')))
                                 \<lparr>collision_type := 99, sensor := True\<rparr>)) w1
      in case space_add [body, shape] w2 of
           (Inl e, w3) \<Rightarrow> (Inl e, w3)
         | (Inr _, w3) \<Rightarrow>
             (let self = \<lparr>Trigger.position = position', Trigger.width = width',
                          Trigger.height = height', Trigger.on_trigger = on_trigger',
                          Trigger.body = body, Trigger.shape = shape\<rparr>
              in (Inr self, space_on_collision 1 99 (HandleCollisionOf self) w3)))"

definition Trigger_remove :: "Trigger \<Rightarrow> world \<Rightarrow> unit outcome" where
  "Trigger_remove self w = space_remove [Trigger.body self, Trigger.shape self] w"

text \<open>
  The user callback is opaque: \<open>run cb arbiter w\<close> is what calling it does to the store
  and whether it raises. An exception leaves \<^verbatim>\<open>_handle_collision\<close> at once.
\<close>

type_synonym arbiter = "ref \<times> ref"
type_synonym callbacks = "callback \<Rightarrow> arbiter \<Rightarrow> world \<Rightarrow> error option \<times> world"

definition Trigger_handle_collision ::
  "callbacks \<Rightarrow> Trigger \<Rightarrow> arbiter \<Rightarrow> world \<Rightarrow> bool outcome" where
  "Trigger_handle_collision run self arbiter w =
     (case (case Trigger.on_trigger self of
              None \<Rightarrow> (None, w)
            | Some cb \<Rightarrow> run cb arbiter w) of
        (Some e, w1) \<Rightarrow> (Inl e, w1)
      | (None, w1) \<Rightarrow>
          (case Trigger_remove self w1 of
             (Inl e, w2) \<Rightarrow> (Inl e, w2)
           | (Inr _, w2) \<Rightarrow> (Inr False, w2)))"

text \<open>
  The engine finds a begin of contact between shapes of collision types \<open>a\<close> and \<open>b\<close>
  and calls the handler registered for the pair; without one the contact is processed.
\<close>

definition space_begin_contact ::
  "callbacks \<Rightarrow> nat \<times> nat \<Rightarrow> arbiter \<Rightarrow> world \<Rightarrow> bool outcome" where
  "space_begin_contact run types arbiter w =
     (case handlers w types of
        None \<Rightarrow> (Inr True, w)
      | Some (HandleCollisionOf t) \<Rightarrow> Trigger_handle_collision run t arbiter w)"

section \<open>Concrete scenes\<close>


text \<open>A user callback that returns and touches nothing.\<close>

definition returning_callback :: callbacks where
  "returning_callback cb arbiter w = (None, w)"

text \<open>A trigger of the default size at the origin, with a user callback, in a fresh space.\<close>

definition trigger_scene :: "Trigger outcome" where
  "trigger_scene = Trigger_init empty_space (0, 0) 40 20 (Some 0)"

definition scene_trigger :: Trigger where
  "scene_trigger =
     \<lparr>Trigger.position = (0, 0), Trigger.width = 40, Trigger.height = 20,
      Trigger.on_trigger = Some 0, Trigger.body = 1, Trigger.shape = 2\<rparr>"


text \<open>
  The scenario of the specification: a load crate of mass 2 at \<open>(100, 100)\<close>, an effort
  crate of mass 1 at \<open>(300, 100)\<close>, then a lever of length 300 and thickness 10 with its
  pivot at \<open>(200, 100)\<close>.
\<close>

definition load_scene :: "Crate outcome" where
  "load_scene = Crate_init empty_space (100, 100) 2"

definition scene_load :: Crate where
  "scene_load = \<lparr>Crate.mass = 2, Crate.size' = 20, Crate.body = 1, Crate.shape = 2\<rparr>"

definition effort_scene :: "Crate outcome" where
  "effort_scene = Crate_init (snd load_scene) (300, 100) 1"

definition scene_effort :: Crate where
  "scene_effort = \<lparr>Crate.mass = 1, Crate.size' = 10, Crate.body = 3, Crate.shape = 4\<rparr>"

definition lever_scene :: "Lever outcome" where
  "lever_scene = Lever_init (snd effort_scene) (200, 100) 300 10 scene_load scene_effort 10"

section \<open>Facts about the store and the space\<close>

lemma wf_fresh: "wf_world w \<Longrightarrow> next_ref w \<le> r \<Longrightarrow> r \<notin> registered w"
  by (auto simp: wf_world_def)

lemma wf_allocated: "wf_world w \<Longrightarrow> heap w r = Some v \<Longrightarrow> r < next_ref w"
  by (metis wf_world_def not_le_imp_less option.distinct(1))

lemma wf_empty_space: "wf_world empty_space"
  by (simp add: wf_world_def empty_space_def)

lemma Trigger_init_ok:
  assumes "wf_world w"
  shows "Trigger_init w p wd ht cb =
     (Inr \<lparr>Trigger.position = p, Trigger.width = wd, Trigger.height = ht,
           Trigger.on_trigger = cb, Trigger.body = next_ref w,
           Trigger.shape = Suc (next_ref w)\<rparr>,
      w\<lparr>heap := (heap w)
           (next_ref w \<mapsto> BodyObj ((new_Body 0 (Moment 0) STATIC)
                                     \<lparr>Body.position := (fst p + wd / 2, snd p + ht / 2)\<rparr>),
            Suc (next_ref w) \<mapsto> ShapeObj ((new_Shape (next_ref w) (Box (wd, ht)))
                                          \<lparr>collision_type := 99, sensor := True\<rparr>)),
         next_ref := Suc (Suc (next_ref w)),
         registered := insert (Suc (next_ref w)) (insert (next_ref w) (registered w)),
         handlers := (handlers w)((1, 99) \<mapsto> HandleCollisionOf
           \<lparr>Trigger.position = p, Trigger.width = wd, Trigger.height = ht,
            Trigger.on_trigger = cb, Trigger.body = next_ref w,
            Trigger.shape = Suc (next_ref w)\<rparr>)\<rparr>)"
  using wf_fresh[OF assms, of "next_ref w"] wf_fresh[OF assms, of "Suc (next_ref w)"]
  by (simp add: Trigger_init_def alloc_def space_add1_def space_on_collision_def Let_def)

lemma space_remove_pair:
  assumes "b \<in> registered w" "s \<in> registered w" "b \<noteq> s"
  shows "space_remove [b, s] w = (Inr (), w\<lparr>registered := registered w - {b, s}\<rparr>)"
proof -
  have "registered w - {b} - {s} = registered w - {b, s}" by auto
  with assms show ?thesis by (simp add: space_remove1_def)
qed

lemma space_remove_absent:
  assumes "b \<notin> registered w"
  shows "space_remove (b # rs) w = (Inl AssertionError, w)"
  using assms by (simp add: space_remove1_def)

lemma trigger_scene_eq:
  "trigger_scene =
     (Inr scene_trigger,
      \<lparr>heap = [0 \<mapsto> BodyObj (new_Body 0 (Moment 0) STATIC),
               1 \<mapsto> BodyObj ((new_Body 0 (Moment 0) STATIC)\<lparr>Body.position := (20, 10)\<rparr>),
               2 \<mapsto> ShapeObj ((new_Shape 1 (Box (40, 20)))
                                \<lparr>collision_type := 99, sensor := True\<rparr>)],
       next_ref = 3, static_body = 0, registered = {1, 2},
       handlers = [(1, 99) \<mapsto> HandleCollisionOf scene_trigger]\<rparr>)"
  unfolding trigger_scene_def Trigger_init_ok[OF wf_empty_space]
  by (simp add: empty_space_def scene_trigger_def insert_commute numeral_3_eq_3 numeral_2_eq_2)

section \<open>Trigger: the contact handler\<close>


lemma scene_trigger_simps:
  "Trigger.on_trigger scene_trigger = Some 0" "Trigger.body scene_trigger = 1"
  "Trigger.shape scene_trigger = 2"
  by (simp_all add: scene_trigger_def)




section \<open>Trigger: remove\<close>

text \<open>
  C2, as the code has it. \<^verbatim>\<open>Trigger.remove\<close> hands the body and the shape to the
  space's remove and has no guard of its own. On a trigger whose body and shape are
  registered it deregisters both. On a trigger whose body is no longer registered it
  changes nothing and fails with the space's assertion; so a second call after a
  successful one fails.
\<close>

theorem Trigger_remove_spec:
  "(Trigger.body t \<in> registered w \<and> Trigger.shape t \<in> registered w \<and>
      Trigger.body t \<noteq> Trigger.shape t \<longrightarrow>
      Trigger_remove t w =
        (Inr (), w\<lparr>registered := registered w - {Trigger.body t, Trigger.shape t}\<rparr>) \<and>
      Trigger_remove t (snd (Trigger_remove t w)) =
        (Inl AssertionError, snd (Trigger_remove t w))) \<and>
   (Trigger.body t \<notin> registered w \<longrightarrow> Trigger_remove t w = (Inl AssertionError, w))"
proof -
  have absent: "Trigger_remove t v = (Inl AssertionError, v)"
    if "Trigger.body t \<notin> registered v" for v
    using that unfolding Trigger_remove_def by (rule space_remove_absent)
  have present: "Trigger_remove t w =
      (Inr (), w\<lparr>registered := registered w - {Trigger.body t, Trigger.shape t}\<rparr>)"
    if "Trigger.body t \<in> registered w" "Trigger.shape t \<in> registered w"
       "Trigger.body t \<noteq> Trigger.shape t"
    using that unfolding Trigger_remove_def by (rule space_remove_pair)
  have again: "Trigger_remove t (snd (Trigger_remove t w)) =
      (Inl AssertionError, snd (Trigger_remove t w))"
    if "Trigger.body t \<in> registered w" "Trigger.shape t \<in> registered w"
       "Trigger.body t \<noteq> Trigger.shape t"
    by (rule absent) (simp add: present[OF that])
  from absent present again show ?thesis by blast
qed

theorem Trigger_remove_spec_witness:
  "Trigger_remove scene_trigger (snd trigger_scene) =
     (Inr (), (snd trigger_scene)\<lparr>registered := {}\<rparr>) \<and>
   Trigger_remove scene_trigger ((snd trigger_scene)\<lparr>registered := {}\<rparr>) =
     (Inl AssertionError, (snd trigger_scene)\<lparr>registered := {}\<rparr>)"
proof -
  let ?w = "snd trigger_scene"
  have reg: "registered ?w = {1, 2}" by (simp add: trigger_scene_eq)
  have a: "Trigger_remove scene_trigger ?w = (Inr (), ?w\<lparr>registered := {}\<rparr>)"
    using Trigger_remove_spec[of scene_trigger ?w] by (simp add: reg scene_trigger_simps)
  have b: "Trigger_remove scene_trigger (?w\<lparr>registered := {}\<rparr>) =
           (Inl AssertionError, ?w\<lparr>registered := {}\<rparr>)"
    using Trigger_remove_spec[of scene_trigger "?w\<lparr>registered := {}\<rparr>"] by simp
  from a b show ?thesis by simp
qed

text \<open>
  C2 as stated fails: in \<open>trigger_scene\<close> the contact handler runs (the callback
  returns), which removes the trigger; the teardown's call of \<^verbatim>\<open>remove()\<close> then fails
  with an assertion error.
\<close>

theorem Trigger_remove_counterexample:
  "fst (space_begin_contact returning_callback (1, 99) (3, 2) (snd trigger_scene)) =
     Inr False \<and>
   Trigger.body scene_trigger \<notin>
     registered (snd (space_begin_contact returning_callback (1, 99) (3, 2) (snd trigger_scene))) \<and>
   Trigger.shape scene_trigger \<notin>
     registered (snd (space_begin_contact returning_callback (1, 99) (3, 2) (snd trigger_scene))) \<and>
   fst (Trigger_remove scene_trigger
          (snd (space_begin_contact returning_callback (1, 99) (3, 2) (snd trigger_scene)))) =
     Inl AssertionError"
  by (simp add: trigger_scene_eq space_begin_contact_def Trigger_handle_collision_def
        Trigger_remove_def space_remove1_def returning_callback_def scene_trigger_simps)

section \<open>Trigger: where the sensor sits\<close>

text \<open>
  C10. A trigger constructed with position \<open>(x, y)\<close>, width \<open>wd\<close> and height \<open>ht\<close> has a
  static body at \<open>(x + wd / 2, y + ht / 2)\<close>, and its sensor shape is the box of width
  \<open>wd\<close> and height \<open>ht\<close> centred on that body: the position given is the box's top-left
  corner, half a width and half a height away from its centre.
\<close>

theorem Trigger_init_center:
  assumes "wf_world w"
  shows "\<exists>t w'. Trigger_init w (x, y) wd ht cb = (Inr t, w') \<and>
           Trigger.position t = (x, y) \<and>
           map_option Body.position (get_body w' (Trigger.body t)) =
             Some (x + wd / 2, y + ht / 2) \<and>
           map_option Body.body_type (get_body w' (Trigger.body t)) = Some STATIC \<and>
           map_option Shape.body (get_shape w' (Trigger.shape t)) = Some (Trigger.body t) \<and>
           map_option Shape.sensor (get_shape w' (Trigger.shape t)) = Some True \<and>
           shape_box_side w' (Trigger.shape t) = Some (wd, ht) \<and>
           shape_half_extent w' (Trigger.shape t) = Some (wd / 2, ht / 2)"
  by (simp add: Trigger_init_ok[OF assms] get_body_def get_shape_def shape_geometry_def
        new_Body_def new_Shape_def shape_half_extent_def shape_box_side_def)

theorem Trigger_init_center_witness:
  "wf_world empty_space \<and>
   (\<exists>t w'. Trigger_init empty_space (0, 0) 40 20 (Some 0) = (Inr t, w') \<and>
           Trigger.position t = (0, 0) \<and>
           map_option Body.position (get_body w' (Trigger.body t)) = Some (20, 10) \<and>
           map_option Body.body_type (get_body w' (Trigger.body t)) = Some STATIC \<and>
           map_option Shape.body (get_shape w' (Trigger.shape t)) = Some (Trigger.body t) \<and>
           map_option Shape.sensor (get_shape w' (Trigger.shape t)) = Some True \<and>
           shape_box_side w' (Trigger.shape t) = Some (40, 20) \<and>
           shape_half_extent w' (Trigger.shape t) = Some (20, 10))"
  using Trigger_init_center[OF wf_empty_space, of 0 0 40 20 "Some 0"] wf_empty_space
  by simp

section \<open>Crate\<close>

lemma Crate_init_ok:
  assumes "wf_world w"
  shows "Crate_init w pos m =
     (Inr \<lparr>Crate.mass = m, size' = m * 10, body = next_ref w, shape = Suc (next_ref w)\<rparr>,
      w\<lparr>heap := (heap w)
           (next_ref w \<mapsto> BodyObj ((new_Body m (MomentForBox m (m * 10 * 2, m * 10 * 2)) DYNAMIC)
                                     \<lparr>Body.position := pos\<rparr>),
            Suc (next_ref w) \<mapsto> ShapeObj ((new_Shape (next_ref w) (Box (m * 10 * 2, m * 10 * 2)))
                                          \<lparr>elasticity := 0.6, friction := 0.8\<rparr>)),
         next_ref := Suc (Suc (next_ref w)),
         registered := insert (Suc (next_ref w)) (insert (next_ref w) (registered w))\<rparr>)"
  using wf_fresh[OF assms, of "next_ref w"] wf_fresh[OF assms, of "Suc (next_ref w)"]
  by (simp add: Crate_init_def CRATE_SIZE_MULTIPLIER_def alloc_def space_add1_def Let_def)

text \<open>
  C4, as the code has it. A crate constructed with mass \<open>m\<close> has \<open>size = 10 * m\<close>, and
  its physics shape is the box whose full sides are \<open>2 * size\<close>: the half-extent of the
  box is \<open>size\<close>.
\<close>

theorem Crate_size_and_box:
  assumes "wf_world w"
  shows "\<exists>c w'. Crate_init w pos m = (Inr c, w') \<and> Crate.mass c = m \<and>
           Crate.size' c = 10 * m \<and>
           shape_box_side w' (Crate.shape c) = Some (2 * Crate.size' c, 2 * Crate.size' c) \<and>
           shape_half_extent w' (Crate.shape c) = Some (Crate.size' c, Crate.size' c)"
  by (simp add: Crate_init_ok[OF assms] shape_box_side_def shape_half_extent_def
        shape_geometry_def get_shape_def new_Shape_def)

theorem Crate_size_and_box_witness:
  "wf_world empty_space \<and>
   (\<exists>c w'. Crate_init empty_space (100, 100) 2 = (Inr c, w') \<and> Crate.mass c = 2 \<and>
           Crate.size' c = 10 * 2 \<and>
           shape_box_side w' (Crate.shape c) = Some (2 * Crate.size' c, 2 * Crate.size' c) \<and>
           shape_half_extent w' (Crate.shape c) = Some (Crate.size' c, Crate.size' c))"
  using Crate_size_and_box[OF wf_empty_space, of "(100, 100)" 2] wf_empty_space by simp

text \<open>
  C4 as stated fails: the crate of mass 1 in a fresh space has size 10 and a box of
  half-extent 10, which is not \<open>2 * size = 20\<close>.
\<close>

theorem Crate_half_extent_counterexample:
  "fst (Crate_init empty_space (0, 0) 1) =
     Inr \<lparr>Crate.mass = 1, size' = 10, body = 1, shape = 2\<rparr> \<and>
   shape_half_extent (snd (Crate_init empty_space (0, 0) 1)) 2 = Some (10, 10) \<and>
   shape_half_extent (snd (Crate_init empty_space (0, 0) 1)) 2 \<noteq> Some (2 * 10, 2 * 10)"
  unfolding Crate_init_ok[OF wf_empty_space]
  by (simp add: shape_half_extent_def shape_geometry_def get_shape_def new_Shape_def
        empty_space_def)

section \<open>Ball and Projectile: drawing\<close>

lemma Ball_init_ok:
  assumes "wf_world w"
  shows "Ball_init w x y r =
     (Inr \<lparr>Ball.body = next_ref w, shape = Suc (next_ref w), radius = r,
           image' = Ball_texture r\<rparr>,
      w\<lparr>heap := (heap w)
           (next_ref w \<mapsto> BodyObj ((new_Body 10 (MomentForCircle 10 0 r) DYNAMIC)
                                     \<lparr>Body.position := (x, y)\<rparr>),
            Suc (next_ref w) \<mapsto> ShapeObj ((new_Shape (next_ref w) (Circle r))
                \<lparr>elasticity := 1.0, friction := 0.5, collision_type := 1\<rparr>)),
         next_ref := Suc (Suc (next_ref w)),
         registered := insert (Suc (next_ref w)) (insert (next_ref w) (registered w))\<rparr>)"
  using wf_fresh[OF assms, of "next_ref w"] wf_fresh[OF assms, of "Suc (next_ref w)"]
  by (simp add: Ball_init_def alloc_def space_add1_def Let_def)

lemma Projectile_init_ok:
  assumes "wf_world w"
  shows "Projectile_init rnd w (x, y) r =
     (Inr \<lparr>self_x = x, self_y = y, radius = r, mass = 100, on_ground = False,
           body = next_ref w, shape = Suc (next_ref w),
           image' = Projectile_texture rnd r\<rparr>,
      w\<lparr>heap := (heap w)
           (next_ref w \<mapsto> BodyObj ((new_Body 100 (MomentForCircle 100 0 r) DYNAMIC)
                                     \<lparr>Body.position := (x, y)\<rparr>),
            Suc (next_ref w) \<mapsto> ShapeObj ((new_Shape (next_ref w) (Circle r))
                \<lparr>elasticity := 0.4, friction := 0.8, density := 1\<rparr>)),
         next_ref := Suc (Suc (next_ref w)),
         registered := insert (Suc (next_ref w)) (insert (next_ref w) (registered w))\<rparr>)"
  using wf_fresh[OF assms, of "next_ref w"] wf_fresh[OF assms, of "Suc (next_ref w)"]
  by (simp add: Projectile_init_def alloc_def space_add1_def Let_def)

lemma py_int_near: "\<bar>real_of_int (py_int v) - v\<bar> < 1"
  unfolding py_int_def by (auto; linarith)

text \<open>
  C9. The constructor of a Ball or a Projectile draws the texture once and keeps it in
  \<open>image'\<close>. Whatever the store is later, if the body is at angle \<open>\<theta>\<close> (radians), draw
  adds one blit to the screen: the kept texture rotated by \<open>- \<theta> * 180 / pi\<close> degrees,
  its rectangle centred at the body's position (truncated to whole pixels, so less than
  one pixel away from it).
\<close>

theorem circular_draw_spec:
  assumes "wf_world w"
  shows "(\<exists>b w'. Ball_init w x y r = (Inr b, w') \<and> Ball.image' b = Ball_texture r \<and>
            (\<forall>w'' bd scr. get_body w'' (Ball.body b) = Some bd \<longrightarrow>
               Ball_draw b w'' scr =
                 Inr (scr @ [Blit (Rotate (Ball_texture r) (- (Body.angle bd * 180 / pi)))
                               (py_int (fst (Body.position bd)),
                                py_int (snd (Body.position bd)))]))) \<and>
         (\<exists>p w'. Projectile_init rnd w (x, y) r = (Inr p, w') \<and>
            Projectile.image' p = Projectile_texture rnd r \<and>
            (\<forall>w'' bd scr. get_body w'' (Projectile.body p) = Some bd \<longrightarrow>
               Projectile_draw p w'' scr =
                 Inr (scr @ [Blit (Rotate (Projectile_texture rnd r)
                                     (- (Body.angle bd * 180 / pi)))
                               (py_int (fst (Body.position bd)),
                                py_int (snd (Body.position bd)))]))) \<and>
         (\<forall>v. \<bar>real_of_int (py_int v) - v\<bar> < 1)"
  by (simp add: Ball_init_ok[OF assms] Projectile_init_ok[OF assms] Ball_draw_def
        Projectile_draw_def math_degrees_def py_int_near)

theorem circular_draw_spec_witness:
  "wf_world empty_space \<and>
   Ball_draw \<lparr>Ball.body = 1, shape = 2, radius = 15, image' = Ball_texture 15\<rparr>
       (set_angle 1 pi (snd (Ball_init empty_space 10.5 20.9 15))) [] =
     Inr [Blit (Rotate (Ball_texture 15) (- 180)) (10, 20)] \<and>
   Projectile_draw
       \<lparr>self_x = 10.5, self_y = 20.9, radius = 15, mass = 100, on_ground = False,
        body = 1, shape = 2, image' = Projectile_texture (\<lambda>k. 0) 15\<rparr>
       (set_angle 1 pi (snd (Projectile_init (\<lambda>k. 0) empty_space (10.5, 20.9) 15))) [] =
     Inr [Blit (Rotate (Projectile_texture (\<lambda>k. 0) 15) (- 180)) (10, 20)]"
proof -
  let ?bd = "(new_Body 10 (MomentForCircle 10 0 15) DYNAMIC)
               \<lparr>Body.position := (10.5, 20.9), Body.angle := pi\<rparr>"
  let ?pd = "(new_Body 100 (MomentForCircle 100 0 15) DYNAMIC)
               \<lparr>Body.position := (10.5, 20.9), Body.angle := pi\<rparr>"
  let ?wb = "set_angle 1 pi (snd (Ball_init empty_space 10.5 20.9 15))"
  let ?wp = "set_angle 1 pi (snd (Projectile_init (\<lambda>k. 0) empty_space (10.5, 20.9) 15))"
  have gb: "get_body ?wb 1 = Some ?bd"
    unfolding Ball_init_ok[OF wf_empty_space]
    by (simp add: set_angle_def get_body_def empty_space_def)
  have gp: "get_body ?wp 1 = Some ?pd"
    unfolding Projectile_init_ok[OF wf_empty_space]
    by (simp add: set_angle_def get_body_def empty_space_def)
  have nb: "Ball_init empty_space 10.5 20.9 15 = (Inr b, v) \<Longrightarrow>
            b = \<lparr>Ball.body = 1, shape = 2, radius = 15, image' = Ball_texture 15\<rparr>" for b v
    unfolding Ball_init_ok[OF wf_empty_space] by (auto simp: empty_space_def)
  have np: "Projectile_init (\<lambda>k. 0) empty_space (10.5, 20.9) 15 = (Inr p, v) \<Longrightarrow>
            p = \<lparr>self_x = 10.5, self_y = 20.9, radius = 15, mass = 100, on_ground = False,
                 body = 1, shape = 2, image' = Projectile_texture (\<lambda>k. 0) 15\<rparr>" for p v
    unfolding Projectile_init_ok[OF wf_empty_space] by (auto simp: empty_space_def)
  have px: "py_int (21 / 2) = 10" "py_int (209 / 10) = 20" by (simp_all add: py_int_def)
  note spec = circular_draw_spec[OF wf_empty_space, where x = "10.5" and y = "20.9"
      and r = 15 and rnd = "\<lambda>k. 0"]
  from spec obtain b wb' where
    b: "Ball_init empty_space 10.5 20.9 15 = (Inr b, wb')" and
    bdraw: "\<forall>w'' bd scr. get_body w'' (Ball.body b) = Some bd \<longrightarrow>
       Ball_draw b w'' scr =
         Inr (scr @ [Blit (Rotate (Ball_texture 15) (- (Body.angle bd * 180 / pi)))
                       (py_int (fst (Body.position bd)), py_int (snd (Body.position bd)))])"
    by blast
  from spec obtain p wp' where
    p: "Projectile_init (\<lambda>k. 0) empty_space (10.5, 20.9) 15 = (Inr p, wp')" and
    pdraw: "\<forall>w'' bd scr. get_body w'' (Projectile.body p) = Some bd \<longrightarrow>
       Projectile_draw p w'' scr =
         Inr (scr @ [Blit (Rotate (Projectile_texture (\<lambda>k. 0) 15)
                             (- (Body.angle bd * 180 / pi)))
                       (py_int (fst (Body.position bd)), py_int (snd (Body.position bd)))])"
    by blast
  have "Ball_draw b ?wb [] =
          Inr [Blit (Rotate (Ball_texture 15) (- 180)) (10, 20)]"
    using bdraw[rule_format, of ?wb ?bd "[]"] gb nb[OF b] by (simp add: px)
  moreover have "Projectile_draw p ?wp [] =
          Inr [Blit (Rotate (Projectile_texture (\<lambda>k. 0) 15) (- 180)) (10, 20)]"
    using pdraw[rule_format, of ?wp ?pd "[]"] gp np[OF p] by (simp add: px)
  ultimately show ?thesis using nb[OF b] np[OF p] wf_empty_space by simp
qed

section \<open>Catapult\<close>

lemma Catapult_init_ok:
  assumes "wf_world w"
  shows "Catapult_init w pv L T =
     (Inr \<lparr>Catapult.pivot = pv, Catapult.stick_length = L, Catapult.stick_thickness = T,
           Catapult.mass = 500, Catapult.base_w = 80, Catapult.base_h = 20,
           Catapult.moment = MomentForSegment 500 (0, 0) (- L, 0) T,
           Catapult.arm_body = next_ref w, Catapult.arm_shape = Suc (next_ref w),
           Catapult.stopper_shape = Suc (Suc (next_ref w)),
           Catapult.stopper_shape2 = Suc (Suc (Suc (next_ref w)))\<rparr>,
      w\<lparr>heap := (heap w)
           (next_ref w \<mapsto> BodyObj
              ((new_Body 500 (MomentForSegment 500 (0, 0) (- L, 0) T) DYNAMIC)
                 \<lparr>Body.position := pv, angular_velocity := 46\<rparr>),
            Suc (next_ref w) \<mapsto> ShapeObj
              ((new_Shape (next_ref w) (Segment (0, 0) (- L, 0) T))\<lparr>friction := 0.8\<rparr>),
            Suc (Suc (next_ref w)) \<mapsto> ShapeObj
              ((new_Shape (next_ref w) (Segment (- L, 0) (- L - 15, - 25) T))
                 \<lparr>elasticity := 0.2, friction := 0.5\<rparr>),
            Suc (Suc (Suc (next_ref w))) \<mapsto> ShapeObj
              ((new_Shape (next_ref w) (Segment (- L + 20, 0) (- L + 35, - 25) T))
                 \<lparr>elasticity := 0.2, friction := 0.5\<rparr>),
            Suc (Suc (Suc (Suc (next_ref w)))) \<mapsto>
              ConstraintObj (PivotJoint (next_ref w) (static_body w) pv)),
         next_ref := Suc (Suc (Suc (Suc (Suc (next_ref w))))),
         registered :=
           insert (Suc (Suc (Suc (Suc (next_ref w)))))
             (insert (Suc (Suc (Suc (next_ref w))))
               (insert (Suc (Suc (next_ref w)))
                 (insert (Suc (next_ref w)) (insert (next_ref w) (registered w)))))\<rparr>)"
proof -
  have fresh: "next_ref w \<notin> registered w" "Suc (next_ref w) \<notin> registered w"
    "Suc (Suc (next_ref w)) \<notin> registered w" "Suc (Suc (Suc (next_ref w))) \<notin> registered w"
    "Suc (Suc (Suc (Suc (next_ref w)))) \<notin> registered w"
    using assms by (simp_all add: wf_fresh)
  show ?thesis
    using fresh
    by (simp add: Catapult_init_def Catapult_create_arm_def alloc_def space_add1_def Let_def)
qed

text \<open>
  C7. Constructing a catapult creates one dynamic body at the pivot whose angular
  velocity is 46, not zero, from the moment it exists; then the arm and the two stopper
  segments on that body; all four are registered, and after them a pivot joint between
  the body and the space's static body, anchored at the pivot. The references are in
  the order of creation.
\<close>

theorem Catapult_init_spec:
  assumes "wf_world w"
  shows "\<exists>c w' j. Catapult_init w pv L T = (Inr c, w') \<and>
     map_option Body.body_type (get_body w' (Catapult.arm_body c)) = Some DYNAMIC \<and>
     map_option Body.position (get_body w' (Catapult.arm_body c)) = Some pv \<and>
     map_option Body.angular_velocity (get_body w' (Catapult.arm_body c)) = Some 46 \<and>
     map_option Body.angular_velocity (get_body w' (Catapult.arm_body c)) \<noteq> Some 0 \<and>
     get_shape w' (Catapult.arm_shape c) =
       Some ((new_Shape (Catapult.arm_body c) (Segment (0, 0) (- L, 0) T))
               \<lparr>friction := 0.8\<rparr>) \<and>
     get_shape w' (Catapult.stopper_shape c) =
       Some ((new_Shape (Catapult.arm_body c) (Segment (- L, 0) (- L - 15, - 25) T))
               \<lparr>elasticity := 0.2, friction := 0.5\<rparr>) \<and>
     get_shape w' (Catapult.stopper_shape2 c) =
       Some ((new_Shape (Catapult.arm_body c) (Segment (- L + 20, 0) (- L + 35, - 25) T))
               \<lparr>elasticity := 0.2, friction := 0.5\<rparr>) \<and>
     get_constraint w' j = Some (PivotJoint (Catapult.arm_body c) (static_body w) pv) \<and>
     static_body w' = static_body w \<and>
     registered w' = registered w \<union>
       {Catapult.arm_body c, Catapult.arm_shape c, Catapult.stopper_shape c,
        Catapult.stopper_shape2 c, j} \<and>
     Catapult.arm_body c < Catapult.arm_shape c \<and>
     Catapult.arm_shape c < Catapult.stopper_shape c \<and>
     Catapult.stopper_shape c < Catapult.stopper_shape2 c \<and>
     Catapult.stopper_shape2 c < j"
  unfolding Catapult_init_ok[OF assms]
  by (rule exI, rule exI, rule exI[of _ "Suc (Suc (Suc (Suc (next_ref w))))"])
     (auto simp: get_body_def get_shape_def get_constraint_def new_Body_def)

theorem Catapult_init_spec_witness:
  "wf_world empty_space \<and>
   fst (Catapult_init empty_space (200, 400) 150 5) =
     Inr \<lparr>Catapult.pivot = (200, 400), Catapult.stick_length = 150,
          Catapult.stick_thickness = 5, Catapult.mass = 500, Catapult.base_w = 80,
          Catapult.base_h = 20,
          Catapult.moment = MomentForSegment 500 (0, 0) (- 150, 0) 5,
          Catapult.arm_body = 1, Catapult.arm_shape = 2, Catapult.stopper_shape = 3,
          Catapult.stopper_shape2 = 4\<rparr> \<and>
   map_option Body.angular_velocity
     (get_body (snd (Catapult_init empty_space (200, 400) 150 5)) 1) = Some 46 \<and>
   registered (snd (Catapult_init empty_space (200, 400) 150 5)) = {1, 2, 3, 4, 5}"
proof -
  from Catapult_init_spec[OF wf_empty_space, of "(200, 400)" 150 5]
  obtain c w' j where
    c: "Catapult_init empty_space (200, 400) 150 5 = (Inr c, w')" and
    v: "map_option Body.angular_velocity (get_body w' (Catapult.arm_body c)) = Some 46" and
    r: "registered w' = registered empty_space \<union>
          {Catapult.arm_body c, Catapult.arm_shape c, Catapult.stopper_shape c,
           Catapult.stopper_shape2 c, j}" and
    g: "get_constraint w' j = Some (PivotJoint (Catapult.arm_body c)
          (static_body empty_space) (200, 400))"
    by blast
  have c_eq: "c = \<lparr>Catapult.pivot = (200, 400), Catapult.stick_length = 150,
          Catapult.stick_thickness = 5, Catapult.mass = 500, Catapult.base_w = 80,
          Catapult.base_h = 20,
          Catapult.moment = MomentForSegment 500 (0, 0) (- 150, 0) 5,
          Catapult.arm_body = 1, Catapult.arm_shape = 2, Catapult.stopper_shape = 3,
          Catapult.stopper_shape2 = 4\<rparr>"
    using c unfolding Catapult_init_ok[OF wf_empty_space]
    by (auto simp: empty_space_def numeral_2_eq_2 numeral_3_eq_3 eval_nat_numeral)
  have j_eq: "j = 5"
    using c g unfolding Catapult_init_ok[OF wf_empty_space]
    by (auto simp: empty_space_def get_constraint_def eval_nat_numeral
          split: if_splits)
  from c v r c_eq j_eq wf_empty_space show ?thesis
    by (auto simp: empty_space_def)
qed

section \<open>Seesaw\<close>








section \<open>Lever\<close>

lemma get_body_heap: "get_body w r = Some b \<Longrightarrow> heap w r = Some (BodyObj b)"
  by (auto simp: get_body_def split: option.splits obj.splits)

lemma Lever_init_ok:
  assumes wf: "wf_world w"
    and ld: "get_body w (Crate.body ld) = Some lb"
    and ef: "get_body w (Crate.body ef) = Some eb"
  shows "Lever_init w pv len th ld ef m =
     (Inr \<lparr>Lever.length' = len, Lever.thickness = th, Lever.mass = m,
           Lever.pivot_point = pv, Lever.load = ld, Lever.effort = ef,
           Lever.body = next_ref w, Lever.shape = Suc (next_ref w),
           Lever.holder_shapes =
             [Suc (Suc (next_ref w)), Suc (Suc (Suc (next_ref w))),
              Suc (Suc (Suc (Suc (next_ref w)))), Suc (Suc (Suc (Suc (Suc (next_ref w)))))],
           Lever.holder_shape = Suc (Suc (next_ref w)),
           Lever.holder_shape2 = Suc (Suc (Suc (next_ref w))),
           Lever.holder_shape3 = Suc (Suc (Suc (Suc (next_ref w)))),
           Lever.holder_shape4 = Suc (Suc (Suc (Suc (Suc (next_ref w)))))\<rparr>,
      w\<lparr>heap := (heap w)
           (next_ref w \<mapsto> BodyObj
              ((new_Body m (MomentForSegment m (- (len * 0.4), 0) (len * 0.6, 0) th) DYNAMIC)
                 \<lparr>Body.position := pv\<rparr>),
            Suc (next_ref w) \<mapsto> ShapeObj
              ((new_Shape (next_ref w) (Segment (- (len * 0.4), 0) (len * 0.6, 0) th))
                 \<lparr>friction := 0.8, collision_type := 2\<rparr>),
            Suc (Suc (next_ref w)) \<mapsto> ShapeObj
              ((new_Shape (next_ref w)
                  (Segment (- len * 0.4 + - 5, 5) (- len * 0.4 + - 5, - 20) th))
                 \<lparr>elasticity := 0.2, friction := 0.5\<rparr>),
            Suc (Suc (Suc (next_ref w))) \<mapsto> ShapeObj
              ((new_Shape (next_ref w)
                  (Segment (fst (Body.position lb) - fst pv + Crate.size' ld + 5, 5)
                           (fst (Body.position lb) - fst pv + Crate.size' ld + 5, - 20) th))
                 \<lparr>elasticity := 0.2, friction := 0.5\<rparr>),
            Suc (Suc (Suc (Suc (next_ref w)))) \<mapsto> ShapeObj
              ((new_Shape (next_ref w)
                  (Segment (fst (Body.position eb) - fst pv - Crate.size' ef - 5, 5)
                           (fst (Body.position eb) - fst pv - Crate.size' ef - 5, - 20) th))
                 \<lparr>elasticity := 0.2, friction := 0.5\<rparr>),
            Suc (Suc (Suc (Suc (Suc (next_ref w))))) \<mapsto> ShapeObj
              ((new_Shape (next_ref w)
                  (Segment (- len * 0.4 + 355, 5) (- len * 0.4 + 355, - 20) (th - 5)))
                 \<lparr>elasticity := 0.2, friction := 0.5, collision_type := 2\<rparr>),
            Suc (Suc (Suc (Suc (Suc (Suc (next_ref w)))))) \<mapsto>
              ConstraintObj (PivotJoint (next_ref w) (static_body w) pv)),
         next_ref := Suc (Suc (Suc (Suc (Suc (Suc (Suc (next_ref w))))))),
         registered :=
           insert (Suc (Suc (Suc (Suc (Suc (Suc (next_ref w)))))))
            (insert (Suc (Suc (Suc (Suc (Suc (next_ref w))))))
             (insert (Suc (Suc (Suc (Suc (next_ref w)))))
              (insert (Suc (Suc (Suc (next_ref w))))
               (insert (Suc (Suc (next_ref w)))
                (insert (Suc (next_ref w)) (insert (next_ref w) (registered w)))))))\<rparr>)"
proof -
  have fresh: "next_ref w \<notin> registered w" "Suc (next_ref w) \<notin> registered w"
    "Suc (Suc (next_ref w)) \<notin> registered w" "Suc (Suc (Suc (next_ref w))) \<notin> registered w"
    "Suc (Suc (Suc (Suc (next_ref w)))) \<notin> registered w"
    "Suc (Suc (Suc (Suc (Suc (next_ref w))))) \<notin> registered w"
    "Suc (Suc (Suc (Suc (Suc (Suc (next_ref w)))))) \<notin> registered w"
    using wf by (simp_all add: wf_fresh)
  have hl: "heap w (Crate.body ld) = Some (BodyObj lb)" using ld by (rule get_body_heap)
  have he: "heap w (Crate.body ef) = Some (BodyObj eb)" using ef by (rule get_body_heap)
  have "Crate.body ld < next_ref w" "Crate.body ef < next_ref w"
    using wf hl he by (auto dest: wf_allocated)
  then have old: "Crate.body ld \<noteq> next_ref w" "Crate.body ld \<noteq> Suc (next_ref w)"
    "Crate.body ld \<noteq> Suc (Suc (next_ref w))" "Crate.body ef \<noteq> next_ref w"
    "Crate.body ef \<noteq> Suc (next_ref w)" "Crate.body ef \<noteq> Suc (Suc (next_ref w))"
    by simp_all
  show ?thesis
    using fresh old hl he
    by (simp add: Lever_init_def alloc_def space_add1_def Let_def get_body_def
          LEVER_LEFT_RATIO_def LEVER_RIGHT_RATIO_def LEVER_COLLISION_TYPE_def new_Body_def)
qed

lemma get_shape_set_position [simp]: "get_shape (set_position r p w) s = get_shape w s"
  by (auto simp: set_position_def get_shape_def get_body_def split: option.splits obj.splits)

lemma get_body_set_position_other:
  "b \<noteq> r \<Longrightarrow> get_body (set_position r p w) b = get_body w b"
  by (auto simp: set_position_def get_body_def split: option.splits obj.splits)

lemma segment_ends_set_position [simp]:
  "segment_ends (set_position r p w) s = segment_ends w s"
  by (simp add: segment_ends_def shape_geometry_def)

lemma Lever_draw_shapes_cong:
  assumes "get_body w2 b = get_body w1 b" "\<And>s. segment_ends w2 s = segment_ends w1 s"
  shows "Lever_draw_shapes w2 b th ss scr = Lever_draw_shapes w1 b th ss scr"
  using assms by (induction ss arbitrary: scr) (simp_all split: option.splits)

lemma Lever_init_facts:
  assumes wf: "wf_world w"
    and ld: "get_body w (Crate.body ld) = Some lb"
    and ef: "get_body w (Crate.body ef) = Some eb"
  obtains l w' where
    "Lever_init w pv len th ld ef m = (Inr l, w')"
    "Lever.body l = next_ref w"
    "Crate.body ld < Lever.body l" "Crate.body ef < Lever.body l"
    "Lever.holder_shapes l =
       [Lever.holder_shape l, Lever.holder_shape2 l, Lever.holder_shape3 l,
        Lever.holder_shape4 l]"
    "get_body w' (Lever.body l) =
       Some ((new_Body m (MomentForSegment m (- (len * 0.4), 0) (len * 0.6, 0) th) DYNAMIC)
               \<lparr>Body.position := pv\<rparr>)"
    "map_option Shape.collision_type (get_shape w' (Lever.shape l)) = Some 2"
    "map_option Shape.collision_type (get_shape w' (Lever.holder_shape4 l)) = Some 2"
    "segment_ends w' (Lever.shape l) = Some ((- (len * 0.4), 0), (len * 0.6, 0))"
    "segment_ends w' (Lever.holder_shape l) =
       Some ((- len * 0.4 + - 5, 5), (- len * 0.4 + - 5, - 20))"
    "segment_ends w' (Lever.holder_shape2 l) =
       Some ((fst (Body.position lb) - fst pv + Crate.size' ld + 5, 5),
             (fst (Body.position lb) - fst pv + Crate.size' ld + 5, - 20))"
    "segment_ends w' (Lever.holder_shape3 l) =
       Some ((fst (Body.position eb) - fst pv - Crate.size' ef - 5, 5),
             (fst (Body.position eb) - fst pv - Crate.size' ef - 5, - 20))"
    "segment_ends w' (Lever.holder_shape4 l) =
       Some ((- len * 0.4 + 355, 5), (- len * 0.4 + 355, - 20))"
proof -
  have "Crate.body ld < next_ref w" "Crate.body ef < next_ref w"
    using wf ld ef by (auto dest: wf_allocated get_body_heap)
  then show ?thesis
    using that Lever_init_ok[OF wf ld ef, of pv len th m]
    by (simp add: segment_ends_def shape_geometry_def get_shape_def get_body_def
          new_Shape_def)
qed

text \<open>
  C3. A lever constructed while the load's body is at \<open>lb\<close> and the effort's body at
  \<open>eb\<close> has holder 2 at local x \<open>(load.x - lever.x) + load.size + 5\<close> and holder 3 at
  local x \<open>(effort.x - lever.x) - effort.size - 5\<close>, the lever's x being that of the
  pivot. Moving the load or the effort afterwards changes neither the holder segments nor
  what \<^verbatim>\<open>Lever.draw\<close> draws (two strokes for each of the five shapes). With the load at
  x = 100 and size 20, the effort at x = 300 and size 10 and the pivot at x = 200 the
  two holders are at \<open>-75\<close> and \<open>85\<close>.
\<close>

theorem Lever_holders_snapshot:
  assumes "wf_world w"
    and "get_body w (Crate.body ld) = Some lb"
    and "get_body w (Crate.body ef) = Some eb"
  shows "\<exists>l w'. Lever_init w pv len th ld ef m = (Inr l, w') \<and>
     segment_ends w' (Lever.holder_shape2 l) =
       Some (((fst (Body.position lb) - fst pv) + Crate.size' ld + 5, 5),
             ((fst (Body.position lb) - fst pv) + Crate.size' ld + 5, - 20)) \<and>
     segment_ends w' (Lever.holder_shape3 l) =
       Some (((fst (Body.position eb) - fst pv) - Crate.size' ef - 5, 5),
             ((fst (Body.position eb) - fst pv) - Crate.size' ef - 5, - 20)) \<and>
     (\<forall>p q scr.
        segment_ends (set_position (Crate.body ld) p (set_position (Crate.body ef) q w'))
            (Lever.holder_shape2 l) = segment_ends w' (Lever.holder_shape2 l) \<and>
        segment_ends (set_position (Crate.body ld) p (set_position (Crate.body ef) q w'))
            (Lever.holder_shape3 l) = segment_ends w' (Lever.holder_shape3 l) \<and>
        Lever_draw l (set_position (Crate.body ld) p (set_position (Crate.body ef) q w')) scr =
          Lever_draw l w' scr \<and>
        (\<exists>cmds. Lever_draw l w' scr = Inr (scr @ cmds) \<and> length cmds = 10)) \<and>
     (fst (Body.position lb) = 100 \<and> Crate.size' ld = 20 \<and>
      fst (Body.position eb) = 300 \<and> Crate.size' ef = 10 \<and> fst pv = 200 \<longrightarrow>
        segment_ends w' (Lever.holder_shape2 l) = Some ((- 75, 5), (- 75, - 20)) \<and>
        segment_ends w' (Lever.holder_shape3 l) = Some ((85, 5), (85, - 20)))"
proof -
  from Lever_init_facts[OF assms, of pv len th m] obtain l w' where
    init: "Lever_init w pv len th ld ef m = (Inr l, w')" and
    older: "Crate.body ld < Lever.body l" "Crate.body ef < Lever.body l" and
    hs: "Lever.holder_shapes l =
       [Lever.holder_shape l, Lever.holder_shape2 l, Lever.holder_shape3 l,
        Lever.holder_shape4 l]" and
    bd: "get_body w' (Lever.body l) =
       Some ((new_Body m (MomentForSegment m (- (len * 0.4), 0) (len * 0.6, 0) th) DYNAMIC)
               \<lparr>Body.position := pv\<rparr>)" and
    s0: "segment_ends w' (Lever.shape l) = Some ((- (len * 0.4), 0), (len * 0.6, 0))" and
    s1: "segment_ends w' (Lever.holder_shape l) =
       Some ((- len * 0.4 + - 5, 5), (- len * 0.4 + - 5, - 20))" and
    s2: "segment_ends w' (Lever.holder_shape2 l) =
       Some ((fst (Body.position lb) - fst pv + Crate.size' ld + 5, 5),
             (fst (Body.position lb) - fst pv + Crate.size' ld + 5, - 20))" and
    s3: "segment_ends w' (Lever.holder_shape3 l) =
       Some ((fst (Body.position eb) - fst pv - Crate.size' ef - 5, 5),
             (fst (Body.position eb) - fst pv - Crate.size' ef - 5, - 20))" and
    s4: "segment_ends w' (Lever.holder_shape4 l) =
       Some ((- len * 0.4 + 355, 5), (- len * 0.4 + 355, - 20))"
    by blast
  have moved: "Lever_draw l (set_position (Crate.body ld) p (set_position (Crate.body ef) q w')) scr
      = Lever_draw l w' scr" for p q scr
    unfolding Lever_draw_def
    using older by (intro Lever_draw_shapes_cong) (simp_all add: get_body_set_position_other)
  have drawn: "\<exists>cmds. Lever_draw l w' scr = Inr (scr @ cmds) \<and> length cmds = 10" for scr
    by (simp add: Lever_draw_def hs bd s0 s1 s2 s3 s4)
  have scen: "segment_ends w' (Lever.holder_shape2 l) = Some ((- 75, 5), (- 75, - 20)) \<and>
        segment_ends w' (Lever.holder_shape3 l) = Some ((85, 5), (85, - 20))"
    if "fst (Body.position lb) = 100 \<and> Crate.size' ld = 20 \<and>
      fst (Body.position eb) = 300 \<and> Crate.size' ef = 10 \<and> fst pv = 200"
    using that by (simp add: s2 s3)
  from init s2 s3 moved drawn scen show ?thesis by simp
qed

lemma Crate_init_wf: "wf_world w \<Longrightarrow> wf_world (snd (Crate_init w pos m))"
  unfolding Crate_init_ok by (auto simp: wf_world_def less_Suc_eq)

lemma load_scene_facts:
  "fst load_scene = Inr scene_load" "wf_world (snd load_scene)"
  "next_ref (snd load_scene) = 3"
  "get_body (snd load_scene) 1 =
     Some ((new_Body 2 (MomentForBox 2 (40, 40)) DYNAMIC)\<lparr>Body.position := (100, 100)\<rparr>)"
proof -
  show "wf_world (snd load_scene)"
    unfolding load_scene_def by (rule Crate_init_wf[OF wf_empty_space])
  show "fst load_scene = Inr scene_load" "next_ref (snd load_scene) = 3"
    "get_body (snd load_scene) 1 =
       Some ((new_Body 2 (MomentForBox 2 (40, 40)) DYNAMIC)\<lparr>Body.position := (100, 100)\<rparr>)"
    unfolding load_scene_def Crate_init_ok[OF wf_empty_space]
    by (simp_all add: scene_load_def empty_space_def get_body_def eval_nat_numeral)
qed

lemma effort_scene_facts:
  "fst effort_scene = Inr scene_effort" "wf_world (snd effort_scene)"
  "get_body (snd effort_scene) 1 =
     Some ((new_Body 2 (MomentForBox 2 (40, 40)) DYNAMIC)\<lparr>Body.position := (100, 100)\<rparr>)"
  "get_body (snd effort_scene) 3 =
     Some ((new_Body 1 (MomentForBox 1 (20, 20)) DYNAMIC)\<lparr>Body.position := (300, 100)\<rparr>)"
proof -
  note wf1 = load_scene_facts(2)
  show "wf_world (snd effort_scene)"
    unfolding effort_scene_def by (rule Crate_init_wf[OF wf1])
  show "fst effort_scene = Inr scene_effort"
    unfolding effort_scene_def Crate_init_ok[OF wf1]
    by (simp add: scene_effort_def load_scene_facts(3) eval_nat_numeral)
  show "get_body (snd effort_scene) 3 =
     Some ((new_Body 1 (MomentForBox 1 (20, 20)) DYNAMIC)\<lparr>Body.position := (300, 100)\<rparr>)"
    unfolding effort_scene_def Crate_init_ok[OF wf1]
    by (simp add: get_body_def load_scene_facts(3))
  show "get_body (snd effort_scene) 1 =
     Some ((new_Body 2 (MomentForBox 2 (40, 40)) DYNAMIC)\<lparr>Body.position := (100, 100)\<rparr>)"
    using load_scene_facts(4)
    unfolding effort_scene_def Crate_init_ok[OF wf1]
    by (simp add: get_body_def load_scene_facts(3))
qed

lemma scene_crate_simps:
  "Crate.body scene_load = 1" "Crate.size' scene_load = 20"
  "Crate.body scene_effort = 3" "Crate.size' scene_effort = 10"
  by (simp_all add: scene_load_def scene_effort_def)

theorem Lever_holders_snapshot_witness:
  "wf_world (snd effort_scene) \<and>
   fst load_scene = Inr scene_load \<and> fst effort_scene = Inr scene_effort \<and>
   map_option Body.position (get_body (snd effort_scene) (Crate.body scene_load)) =
     Some (100, 100) \<and>
   map_option Body.position (get_body (snd effort_scene) (Crate.body scene_effort)) =
     Some (300, 100) \<and>
   (\<exists>l w'. lever_scene = (Inr l, w') \<and>
      segment_ends w' (Lever.holder_shape2 l) = Some ((- 75, 5), (- 75, - 20)) \<and>
      segment_ends w' (Lever.holder_shape3 l) = Some ((85, 5), (85, - 20)) \<and>
      segment_ends (set_position 1 (500, 0) (set_position 3 (0, 0) w'))
        (Lever.holder_shape2 l) = Some ((- 75, 5), (- 75, - 20)) \<and>
      segment_ends (set_position 1 (500, 0) (set_position 3 (0, 0) w'))
        (Lever.holder_shape3 l) = Some ((85, 5), (85, - 20)) \<and>
      Lever_draw l (set_position 1 (500, 0) (set_position 3 (0, 0) w')) [] =
        Lever_draw l w' [])"
proof -
  have gl: "get_body (snd effort_scene) (Crate.body scene_load) =
     Some ((new_Body 2 (MomentForBox 2 (40, 40)) DYNAMIC)\<lparr>Body.position := (100, 100)\<rparr>)"
    using effort_scene_facts(3) by (simp add: scene_crate_simps)
  have ge: "get_body (snd effort_scene) (Crate.body scene_effort) =
     Some ((new_Body 1 (MomentForBox 1 (20, 20)) DYNAMIC)\<lparr>Body.position := (300, 100)\<rparr>)"
    using effort_scene_facts(4) by (simp add: scene_crate_simps)
  from Lever_holders_snapshot[OF effort_scene_facts(2) gl ge, of "(200, 100)" 300 10 10]
  obtain l w' where
    init: "lever_scene = (Inr l, w')" and
    h2: "segment_ends w' (Lever.holder_shape2 l) = Some ((- 75, 5), (- 75, - 20))" and
    h3: "segment_ends w' (Lever.holder_shape3 l) = Some ((85, 5), (85, - 20))" and
    mv: "\<forall>p q scr.
        segment_ends (set_position (Crate.body scene_load) p
            (set_position (Crate.body scene_effort) q w')) (Lever.holder_shape2 l) =
          segment_ends w' (Lever.holder_shape2 l) \<and>
        segment_ends (set_position (Crate.body scene_load) p
            (set_position (Crate.body scene_effort) q w')) (Lever.holder_shape3 l) =
          segment_ends w' (Lever.holder_shape3 l) \<and>
        Lever_draw l (set_position (Crate.body scene_load) p
            (set_position (Crate.body scene_effort) q w')) scr = Lever_draw l w' scr \<and>
        (\<exists>cmds. Lever_draw l w' scr = Inr (scr @ cmds) \<and> length cmds = 10)"
    unfolding lever_scene_def[symmetric]
    by (auto simp: scene_crate_simps)
  have moved:
    "segment_ends (set_position 1 (500, 0) (set_position 3 (0, 0) w'))
        (Lever.holder_shape2 l) = Some ((- 75, 5), (- 75, - 20))"
    "segment_ends (set_position 1 (500, 0) (set_position 3 (0, 0) w'))
        (Lever.holder_shape3 l) = Some ((85, 5), (85, - 20))"
    "Lever_draw l (set_position 1 (500, 0) (set_position 3 (0, 0) w')) [] =
        Lever_draw l w' []"
    using mv[rule_format, of "(500, 0)" "(0, 0)" "[]"] h2 h3
    by (simp_all add: scene_crate_simps)
  have scene: "\<exists>l w'. lever_scene = (Inr l, w') \<and>
      segment_ends w' (Lever.holder_shape2 l) = Some ((- 75, 5), (- 75, - 20)) \<and>
      segment_ends w' (Lever.holder_shape3 l) = Some ((85, 5), (85, - 20)) \<and>
      segment_ends (set_position 1 (500, 0) (set_position 3 (0, 0) w'))
        (Lever.holder_shape2 l) = Some ((- 75, 5), (- 75, - 20)) \<and>
      segment_ends (set_position 1 (500, 0) (set_position 3 (0, 0) w'))
        (Lever.holder_shape3 l) = Some ((85, 5), (85, - 20)) \<and>
      Lever_draw l (set_position 1 (500, 0) (set_position 3 (0, 0) w')) [] =
        Lever_draw l w' []"
    using init h2 h3 moved by blast
  have pos: "map_option Body.position (get_body (snd effort_scene) (Crate.body scene_load)) =
      Some (100, 100)"
    "map_option Body.position (get_body (snd effort_scene) (Crate.body scene_effort)) =
      Some (300, 100)"
    by (simp_all add: gl ge new_Body_def)
  from scene pos effort_scene_facts(1,2) load_scene_facts(1) show ?thesis by blast
qed

text \<open>
  C6. In a lever of length \<open>len\<close>, holder 4 is the segment at local x
  \<open>- len * 0.4 + 355\<close>, whatever the load and the effort are and wherever they sit, and
  its collision type is 2, the collision type of the main beam.
\<close>

theorem Lever_holder4_spec:
  assumes "wf_world w"
    and "get_body w (Crate.body ld) = Some lb"
    and "get_body w (Crate.body ef) = Some eb"
  shows "\<exists>l w'. Lever_init w pv len th ld ef m = (Inr l, w') \<and>
     segment_ends w' (Lever.holder_shape4 l) =
       Some ((- len * 0.4 + 355, 5), (- len * 0.4 + 355, - 20)) \<and>
     map_option Shape.collision_type (get_shape w' (Lever.holder_shape4 l)) = Some 2 \<and>
     map_option Shape.collision_type (get_shape w' (Lever.shape l)) = Some 2 \<and>
     LEVER_COLLISION_TYPE = 2 \<and>
     (\<forall>ld' ef' lb' eb'.
        get_body w (Crate.body ld') = Some lb' \<and> get_body w (Crate.body ef') = Some eb' \<longrightarrow>
        (\<exists>l2 w2. Lever_init w pv len th ld' ef' m = (Inr l2, w2) \<and>
           segment_ends w2 (Lever.holder_shape4 l2) =
             segment_ends w' (Lever.holder_shape4 l)))"
proof -
  from Lever_init_facts[OF assms, of pv len th m] obtain l w' where
    init: "Lever_init w pv len th ld ef m = (Inr l, w')" and
    c0: "map_option Shape.collision_type (get_shape w' (Lever.shape l)) = Some 2" and
    c4: "map_option Shape.collision_type (get_shape w' (Lever.holder_shape4 l)) = Some 2" and
    s4: "segment_ends w' (Lever.holder_shape4 l) =
       Some ((- len * 0.4 + 355, 5), (- len * 0.4 + 355, - 20))"
    by blast
  have other: "\<exists>l2 w2. Lever_init w pv len th ld' ef' m = (Inr l2, w2) \<and>
      segment_ends w2 (Lever.holder_shape4 l2) = segment_ends w' (Lever.holder_shape4 l)"
    if "get_body w (Crate.body ld') = Some lb' \<and> get_body w (Crate.body ef') = Some eb'"
    for ld' ef' lb' eb'
  proof -
    from that have a: "get_body w (Crate.body ld') = Some lb'"
      and b: "get_body w (Crate.body ef') = Some eb'" by simp_all
    from Lever_init_facts[OF assms(1) a b, of pv len th m] obtain l2 w2 where
      "Lever_init w pv len th ld' ef' m = (Inr l2, w2)"
      "segment_ends w2 (Lever.holder_shape4 l2) =
         Some ((- len * 0.4 + 355, 5), (- len * 0.4 + 355, - 20))"
      by blast
    with s4 show ?thesis by simp
  qed
  have lct: "LEVER_COLLISION_TYPE = 2" by (simp add: LEVER_COLLISION_TYPE_def)
  from init s4 c4 c0 lct other show ?thesis by blast
qed

theorem Lever_holder4_spec_witness:
  "wf_world (snd effort_scene) \<and>
   map_option Body.position (get_body (snd effort_scene) (Crate.body scene_load)) =
     Some (100, 100) \<and>
   map_option Body.position (get_body (snd effort_scene) (Crate.body scene_effort)) =
     Some (300, 100) \<and>
   (\<exists>l w'. lever_scene = (Inr l, w') \<and>
      segment_ends w' (Lever.holder_shape4 l) = Some ((235, 5), (235, - 20)) \<and>
      map_option Shape.collision_type (get_shape w' (Lever.holder_shape4 l)) = Some 2 \<and>
      map_option Shape.collision_type (get_shape w' (Lever.shape l)) = Some 2 \<and>
      (\<exists>l2 w2. Lever_init (snd effort_scene) (200, 100) 300 10 scene_effort scene_load 10 =
                  (Inr l2, w2) \<and>
               segment_ends w2 (Lever.holder_shape4 l2) = Some ((235, 5), (235, - 20))))"
proof -
  have gl: "get_body (snd effort_scene) (Crate.body scene_load) =
     Some ((new_Body 2 (MomentForBox 2 (40, 40)) DYNAMIC)\<lparr>Body.position := (100, 100)\<rparr>)"
    using effort_scene_facts(3) by (simp add: scene_crate_simps)
  have ge: "get_body (snd effort_scene) (Crate.body scene_effort) =
     Some ((new_Body 1 (MomentForBox 1 (20, 20)) DYNAMIC)\<lparr>Body.position := (300, 100)\<rparr>)"
    using effort_scene_facts(4) by (simp add: scene_crate_simps)
  from Lever_holder4_spec[OF effort_scene_facts(2) gl ge, of "(200, 100)" 300 10 10]
  obtain l w' where
    init: "lever_scene = (Inr l, w')" and
    s4: "segment_ends w' (Lever.holder_shape4 l) = Some ((235, 5), (235, - 20))" and
    c4: "map_option Shape.collision_type (get_shape w' (Lever.holder_shape4 l)) = Some 2" and
    c0: "map_option Shape.collision_type (get_shape w' (Lever.shape l)) = Some 2" and
    other: "\<forall>ld' ef' lb' eb'.
        get_body (snd effort_scene) (Crate.body ld') = Some lb' \<and>
        get_body (snd effort_scene) (Crate.body ef') = Some eb' \<longrightarrow>
        (\<exists>l2 w2. Lever_init (snd effort_scene) (200, 100) 300 10 ld' ef' 10 = (Inr l2, w2) \<and>
           segment_ends w2 (Lever.holder_shape4 l2) =
             segment_ends w' (Lever.holder_shape4 l))"
    unfolding lever_scene_def[symmetric] by auto
  from other[rule_format, of scene_effort _ scene_load] ge gl s4
  have swapped: "\<exists>l2 w2.
      Lever_init (snd effort_scene) (200, 100) 300 10 scene_effort scene_load 10 = (Inr l2, w2) \<and>
      segment_ends w2 (Lever.holder_shape4 l2) = Some ((235, 5), (235, - 20))"
    by simp
  have pos: "map_option Body.position (get_body (snd effort_scene) (Crate.body scene_load)) =
      Some (100, 100)"
    "map_option Body.position (get_body (snd effort_scene) (Crate.body scene_effort)) =
      Some (300, 100)"
    by (simp_all add: gl ge new_Body_def)
  from init s4 c4 c0 swapped pos effort_scene_facts(2) show ?thesis by blast
qed

section \<open>Collision types\<close>

text \<open>
  C8. The shape of a new Ball has collision type 1; the main beam and holder 4 of a new
  Lever have collision type 2; the sensor shape of a new Trigger has collision type 99,
  and constructing the Trigger sets the begin handler of the pair (1, 99), and of no
  other pair, to its own \<^verbatim>\<open>_handle_collision\<close>.
\<close>

theorem collision_types_spec:
  assumes "wf_world w"
    and "get_body w (Crate.body ld) = Some lb"
    and "get_body w (Crate.body ef) = Some eb"
  shows "(\<exists>b w'. Ball_init w x y r = (Inr b, w') \<and>
            map_option Shape.collision_type (get_shape w' (Ball.shape b)) = Some 1) \<and>
         (\<exists>l w'. Lever_init w pv len th ld ef m = (Inr l, w') \<and>
            map_option Shape.collision_type (get_shape w' (Lever.shape l)) = Some 2 \<and>
            map_option Shape.collision_type (get_shape w' (Lever.holder_shape4 l)) = Some 2) \<and>
         (\<exists>t w'. Trigger_init w p wd ht cb = (Inr t, w') \<and>
            map_option Shape.collision_type (get_shape w' (Trigger.shape t)) = Some 99 \<and>
            handlers w' = (handlers w)((1, 99) \<mapsto> HandleCollisionOf t) \<and>
            (\<forall>run arb. space_begin_contact run (1, 99) arb w' =
                         Trigger_handle_collision run t arb w'))"
proof -
  have ball: "\<exists>b w'. Ball_init w x y r = (Inr b, w') \<and>
      map_option Shape.collision_type (get_shape w' (Ball.shape b)) = Some 1"
    by (simp add: Ball_init_ok[OF assms(1)] get_shape_def)
  from Lever_init_facts[OF assms, of pv len th m]
  have lever: "\<exists>l w'. Lever_init w pv len th ld ef m = (Inr l, w') \<and>
      map_option Shape.collision_type (get_shape w' (Lever.shape l)) = Some 2 \<and>
      map_option Shape.collision_type (get_shape w' (Lever.holder_shape4 l)) = Some 2"
    by metis
  have trigger: "\<exists>t w'. Trigger_init w p wd ht cb = (Inr t, w') \<and>
      map_option Shape.collision_type (get_shape w' (Trigger.shape t)) = Some 99 \<and>
      handlers w' = (handlers w)((1, 99) \<mapsto> HandleCollisionOf t) \<and>
      (\<forall>run arb. space_begin_contact run (1, 99) arb w' =
                   Trigger_handle_collision run t arb w')"
    by (simp add: Trigger_init_ok[OF assms(1)] get_shape_def space_begin_contact_def)
  from ball lever trigger show ?thesis by blast
qed

theorem collision_types_spec_witness:
  "wf_world (snd effort_scene) \<and>
   map_option Body.position (get_body (snd effort_scene) (Crate.body scene_load)) =
     Some (100, 100) \<and>
   map_option Body.position (get_body (snd effort_scene) (Crate.body scene_effort)) =
     Some (300, 100) \<and>
   (\<exists>b w'. Ball_init (snd effort_scene) 50 60 15 = (Inr b, w') \<and>
      map_option Shape.collision_type (get_shape w' (Ball.shape b)) = Some 1) \<and>
   (\<exists>l w'. lever_scene = (Inr l, w') \<and>
      map_option Shape.collision_type (get_shape w' (Lever.shape l)) = Some 2 \<and>
      map_option Shape.collision_type (get_shape w' (Lever.holder_shape4 l)) = Some 2) \<and>
   (\<exists>t w'. Trigger_init (snd effort_scene) (0, 0) 40 20 None = (Inr t, w') \<and>
      map_option Shape.collision_type (get_shape w' (Trigger.shape t)) = Some 99 \<and>
      handlers w' = (handlers (snd effort_scene))((1, 99) \<mapsto> HandleCollisionOf t))"
proof -
  have gl: "get_body (snd effort_scene) (Crate.body scene_load) =
     Some ((new_Body 2 (MomentForBox 2 (40, 40)) DYNAMIC)\<lparr>Body.position := (100, 100)\<rparr>)"
    using effort_scene_facts(3) by (simp add: scene_crate_simps)
  have ge: "get_body (snd effort_scene) (Crate.body scene_effort) =
     Some ((new_Body 1 (MomentForBox 1 (20, 20)) DYNAMIC)\<lparr>Body.position := (300, 100)\<rparr>)"
    using effort_scene_facts(4) by (simp add: scene_crate_simps)
  have pos: "map_option Body.position (get_body (snd effort_scene) (Crate.body scene_load)) =
      Some (100, 100)"
    "map_option Body.position (get_body (snd effort_scene) (Crate.body scene_effort)) =
      Some (300, 100)"
    by (simp_all add: gl ge new_Body_def)
  note spec = collision_types_spec[OF effort_scene_facts(2) gl ge,
      of 50 60 15 "(200, 100)" 300 10 10 "(0, 0)" 40 20 None,
      unfolded lever_scene_def[symmetric]]
  from spec pos effort_scene_facts(2) show ?thesis by blast
qed

end
